theory Spec2Isabelle
  imports Complex_Main
begin

section \<open>The climate stress-test engine of the Scenarios page\<close>

text \<open>
  The engine is the function \<open>calculateStressOutcomes\<close> of the Scenarios page, together
  with the parameter table \<open>STRESS_TEST_PARAMS\<close>, the list \<open>presetScenarios\<close> and the
  recommendation list rendered from the computed report.

  The numbers of the source are IEEE doubles. The calculator is modelled twice. The
  first model is the calculator in exact arithmetic: every decimal literal of the source
  is the exact decimal, and \<open>+\<close>, \<open>-\<close>, \<open>*\<close>, \<open>/\<close>, \<open>Math.pow\<close>,
  \<open>Math.max\<close> and \<open>Math.min\<close> are the exact operations on real numbers. The
  statements about the presets, the bounds, the monotonicity and the closed forms are
  made for it. The second model takes the arithmetic as a parameter; the statements
  about how the labels and the rounded fields of the report follow from the computed
  values are made for it, for every arithmetic.
\<close>

subsection \<open>Data\<close>

text \<open>
  An object with the six parameter keys. The source uses this shape twice: for the
  table of slider configurations and for the current parameter values.
\<close>

record 'a StressParams =
  temperature_rise :: 'a
  carbon_price :: 'a
  green_investment_growth :: 'a
  fossil_phase_out :: 'a
  water_stress_level :: 'a
  disaster_frequency :: 'a

text \<open>
  One entry of \<open>STRESS_TEST_PARAMS\<close>. The fields \<open>min\<close>, \<open>max\<close>, \<open>step\<close> and
  \<open>default\<close> of the source carry the prefix \<open>p_\<close> here; the icon, colour and
  description of an entry are presentation only and are left out.
\<close>

record ParamConfig =
  label :: string
  p_min :: real
  p_max :: real
  p_step :: real
  p_default :: real

record Metrics =
  npa_ratio :: real
  gdp_growth :: real
  expected_loss :: real
  green_finance_share :: real
  capital_ratio :: real
  liquidity_coverage :: real

record RiskScores =
  physical :: real
  transition :: real
  financial :: real
  operational :: real
  regulatory :: real
  overall :: real

record Changes =
  npa_change :: real
  gdp_change :: real
  loss_change_pct :: real

record StressReport =
  baseline :: Metrics
  projected :: Metrics
  risk_scores :: RiskScores
  changes :: Changes
  stress_level :: string
  capital_adequacy :: string

record PresetScenario =
  name :: string
  params :: "real StressParams"
  description :: string

subsection \<open>Parameter table and presets\<close>

definition STRESS_TEST_PARAMS :: "ParamConfig StressParams" where
  "STRESS_TEST_PARAMS = \<lparr>
     temperature_rise =
       \<lparr>label = ''Temperature Rise'', p_min = 1.0, p_max = 4.0, p_step = 0.1,
        p_default = 1.5\<rparr>,
     carbon_price =
       \<lparr>label = ''Carbon Price'', p_min = 500, p_max = 5000, p_step = 100,
        p_default = 1000\<rparr>,
     green_investment_growth =
       \<lparr>label = ''Green Investment Growth'', p_min = 0, p_max = 50, p_step = 1,
        p_default = 20\<rparr>,
     fossil_phase_out =
       \<lparr>label = ''Fossil Fuel Phase-out Rate'', p_min = 0, p_max = 15, p_step = 0.5,
        p_default = 5\<rparr>,
     water_stress_level =
       \<lparr>label = ''Water Stress Level'', p_min = 0, p_max = 100, p_step = 1,
        p_default = 45\<rparr>,
     disaster_frequency =
       \<lparr>label = ''Extreme Weather Frequency'', p_min = 1.0, p_max = 3.0, p_step = 0.1,
        p_default = 1.5\<rparr>\<rparr>"

text \<open>
  A parameter vector is in range when each field lies between the \<open>min\<close> and the
  \<open>max\<close> of its entry in the table.
\<close>

definition in_bounds :: "ParamConfig \<Rightarrow> real \<Rightarrow> bool" where
  "in_bounds cfg v = (p_min cfg \<le> v \<and> v \<le> p_max cfg)"

definition in_range :: "real StressParams \<Rightarrow> bool" where
  "in_range p =
     (in_bounds (temperature_rise STRESS_TEST_PARAMS) (temperature_rise p) \<and>
      in_bounds (carbon_price STRESS_TEST_PARAMS) (carbon_price p) \<and>
      in_bounds (green_investment_growth STRESS_TEST_PARAMS) (green_investment_growth p) \<and>
      in_bounds (fossil_phase_out STRESS_TEST_PARAMS) (fossil_phase_out p) \<and>
      in_bounds (water_stress_level STRESS_TEST_PARAMS) (water_stress_level p) \<and>
      in_bounds (disaster_frequency STRESS_TEST_PARAMS) (disaster_frequency p))"

text \<open>The vector built by \<open>resetParams\<close>: the \<open>default\<close> of every entry.\<close>

definition defaults :: "real StressParams" where
  "defaults = \<lparr>
     temperature_rise = p_default (temperature_rise STRESS_TEST_PARAMS),
     carbon_price = p_default (carbon_price STRESS_TEST_PARAMS),
     green_investment_growth = p_default (green_investment_growth STRESS_TEST_PARAMS),
     fossil_phase_out = p_default (fossil_phase_out STRESS_TEST_PARAMS),
     water_stress_level = p_default (water_stress_level STRESS_TEST_PARAMS),
     disaster_frequency = p_default (disaster_frequency STRESS_TEST_PARAMS)\<rparr>"

definition presetScenarios :: "PresetScenario list" where
  "presetScenarios = [
     \<lparr>name = ''Net Zero 2050'',
      params = \<lparr>temperature_rise = 1.5, carbon_price = 3000, green_investment_growth = 40,
                fossil_phase_out = 10, water_stress_level = 35, disaster_frequency = 1.2\<rparr>,
      description = ''Aggressive decarbonization pathway''\<rparr>,
     \<lparr>name = ''Business as Usual'',
      params = \<lparr>temperature_rise = 2.5, carbon_price = 800, green_investment_growth = 10,
                fossil_phase_out = 2, water_stress_level = 55, disaster_frequency = 1.8\<rparr>,
      description = ''Current trajectory continues''\<rparr>,
     \<lparr>name = ''Delayed Transition'',
      params = \<lparr>temperature_rise = 2.0, carbon_price = 1500, green_investment_growth = 25,
                fossil_phase_out = 5, water_stress_level = 50, disaster_frequency = 1.5\<rparr>,
      description = ''Gradual policy implementation''\<rparr>,
     \<lparr>name = ''Climate Crisis'',
      params = \<lparr>temperature_rise = 3.5, carbon_price = 500, green_investment_growth = 5,
                fossil_phase_out = 1, water_stress_level = 80, disaster_frequency = 2.5\<rparr>,
      description = ''Worst-case climate scenario''\<rparr>,
     \<lparr>name = ''Green Recovery'',
      params = \<lparr>temperature_rise = 1.8, carbon_price = 2500, green_investment_growth = 45,
                fossil_phase_out = 12, water_stress_level = 40, disaster_frequency = 1.3\<rparr>,
      description = ''Accelerated green investment''\<rparr>]"

text \<open>The parameter vectors of the presets carrying a given name, in list order.\<close>

definition preset_params :: "string \<Rightarrow> real StressParams list" where
  "preset_params n = map params (filter (\<lambda>s. name s = n) presetScenarios)"

subsection \<open>Rounding for the report\<close>

text \<open>
  \<open>parseFloat(x.toFixed(d))\<close>. \<open>toFixed\<close> prints the integer \<open>n\<close> for which
  \<open>n / 10^d\<close> is closest to \<open>x\<close>, the larger one on a tie, after taking the sign off a
  negative \<open>x\<close>; from \<open>10^21\<close> on it prints the number itself. \<open>parseFloat\<close> reads the
  printed decimal back.
\<close>

definition toFixed :: "real \<Rightarrow> nat \<Rightarrow> real" where
  "toFixed x d =
     (if 10 ^ 21 \<le> \<bar>x\<bar> then x
      else if x < 0 then - (of_int \<lfloor>(- x) * 10 ^ d + 1 / 2\<rfloor> / 10 ^ d)
      else of_int \<lfloor>x * 10 ^ d + 1 / 2\<rfloor> / 10 ^ d)"

subsection \<open>The outcome calculator\<close>

text \<open>
  Each \<open>const\<close> of \<open>calculateStressOutcomes\<close> is a function of the parameter vector
  with the name it has in the source.
\<close>

definition baseNPA :: real where "baseNPA = 2.5"
definition baseGDP :: real where "baseGDP = 6.5"
definition baseExpectedLoss :: real where "baseExpectedLoss = 15000"
definition baseGreenFinance :: real where "baseGreenFinance = 20"

definition temperatureImpact :: "real StressParams \<Rightarrow> real" where
  "temperatureImpact p = (temperature_rise p - 1.5) ^ 2 * 0.8"

definition carbonPriceImpact :: "real StressParams \<Rightarrow> real" where
  "carbonPriceImpact p = (carbon_price p - 1000) / 1000 * 0.3"

definition greenInvestmentBenefit :: "real StressParams \<Rightarrow> real" where
  "greenInvestmentBenefit p = green_investment_growth p * 0.02"

definition fossilPhaseOutCost :: "real StressParams \<Rightarrow> real" where
  "fossilPhaseOutCost p = fossil_phase_out p * 0.15"

definition waterStressImpact :: "real StressParams \<Rightarrow> real" where
  "waterStressImpact p = water_stress_level p / 100 * 0.5"

definition disasterImpact :: "real StressParams \<Rightarrow> real" where
  "disasterImpact p = (disaster_frequency p - 1) * 1.2"

definition projectedNPA :: "real StressParams \<Rightarrow> real" where
  "projectedNPA p =
     max 0 (baseNPA + temperatureImpact p + waterStressImpact p + disasterImpact p
            - greenInvestmentBenefit p)"

definition projectedGDP :: "real StressParams \<Rightarrow> real" where
  "projectedGDP p =
     max 0 (baseGDP - temperatureImpact p * 0.5 - fossilPhaseOutCost p * 0.3
            - disasterImpact p * 0.4 + greenInvestmentBenefit p * 0.2)"

definition projectedExpectedLoss :: "real StressParams \<Rightarrow> real" where
  "projectedExpectedLoss p =
     baseExpectedLoss * (1 + temperatureImpact p * 0.2 + disasterImpact p * 0.15)"

definition projectedGreenFinance :: "real StressParams \<Rightarrow> real" where
  "projectedGreenFinance p = baseGreenFinance + green_investment_growth p * 0.5"

definition physicalRisk :: "real StressParams \<Rightarrow> real" where
  "physicalRisk p =
     min 100 ((temperatureImpact p + waterStressImpact p + disasterImpact p) * 25 + 30)"

definition transitionRisk :: "real StressParams \<Rightarrow> real" where
  "transitionRisk p = min 100 ((carbonPriceImpact p + fossilPhaseOutCost p) * 20 + 25)"

definition financialRisk :: "real StressParams \<Rightarrow> real" where
  "financialRisk p = min 100 ((projectedNPA p / baseNPA - 1) * 50 + 40)"

definition operationalRisk :: "real StressParams \<Rightarrow> real" where
  "operationalRisk p = min 100 ((disasterImpact p + waterStressImpact p) * 30 + 20)"

definition regulatoryRisk :: "real StressParams \<Rightarrow> real" where
  "regulatoryRisk p = min 100 ((carbon_price p / 1000) * 15 + 30)"

definition overallStressScore :: "real StressParams \<Rightarrow> real" where
  "overallStressScore p =
     (physicalRisk p + transitionRisk p + financialRisk p + operationalRisk p
      + regulatoryRisk p) / 5"

definition capitalImpact :: "real StressParams \<Rightarrow> real" where
  "capitalImpact p = - 1 * (temperatureImpact p + transitionRisk p / 100) * 2"

definition liquidityStress :: "real StressParams \<Rightarrow> real" where
  "liquidityStress p = min 100 (disasterImpact p * 20 + waterStressImpact p * 15 + 25)"

definition calculateStressOutcomes :: "real StressParams \<Rightarrow> StressReport" where
  "calculateStressOutcomes p = \<lparr>
     baseline = \<lparr>
       npa_ratio = baseNPA,
       gdp_growth = baseGDP,
       expected_loss = baseExpectedLoss,
       green_finance_share = baseGreenFinance,
       capital_ratio = 15.5,
       liquidity_coverage = 135\<rparr>,
     projected = \<lparr>
       npa_ratio = toFixed (projectedNPA p) 2,
       gdp_growth = toFixed (projectedGDP p) 2,
       expected_loss = toFixed (projectedExpectedLoss p) 0,
       green_finance_share = toFixed (projectedGreenFinance p) 1,
       capital_ratio = toFixed (15.5 + capitalImpact p) 2,
       liquidity_coverage = toFixed (135 - liquidityStress p * 0.5) 0\<rparr>,
     risk_scores = \<lparr>
       physical = toFixed (physicalRisk p) 1,
       transition = toFixed (transitionRisk p) 1,
       financial = toFixed (financialRisk p) 1,
       operational = toFixed (operationalRisk p) 1,
       regulatory = toFixed (regulatoryRisk p) 1,
       overall = toFixed (overallStressScore p) 1\<rparr>,
     changes = \<lparr>
       npa_change = toFixed (projectedNPA p - baseNPA) 2,
       gdp_change = toFixed (projectedGDP p - baseGDP) 2,
       loss_change_pct =
         toFixed ((projectedExpectedLoss p - baseExpectedLoss) / baseExpectedLoss * 100) 1\<rparr>,
     stress_level =
       (if overallStressScore p > 70 then ''Severe''
        else if overallStressScore p > 50 then ''High''
        else if overallStressScore p > 30 then ''Moderate''
        else ''Low''),
     capital_adequacy =
       (if 15.5 + capitalImpact p \<ge> 11.5 then ''Adequate''
        else if 15.5 + capitalImpact p \<ge> 9 then ''Watch''
        else ''Critical'')\<rparr>"

subsection \<open>The recommendation list\<close>

text \<open>
  The list items of the recommendations card, in the order of the markup: four items
  each guarded by a test on a field of the report, then two unguarded items.
\<close>

definition rec_physical :: string where
  "rec_physical =
     ''Increase physical risk provisions and review exposure to climate-vulnerable assets''"

definition rec_transition :: string where
  "rec_transition =
     ''Accelerate divestment from high-carbon sectors and increase green finance allocation''"

definition rec_capital :: string where
  "rec_capital =
     ''Consider capital buffer enhancement to maintain regulatory requirements''"

definition rec_credit :: string where
  "rec_credit =
     ''Implement enhanced credit monitoring for climate-sensitive sectors''"

definition rec_monitoring :: string where
  "rec_monitoring =
     ''Continue monitoring and run quarterly stress tests with updated parameters''"

definition rec_diversified :: string where
  "rec_diversified =
     ''Maintain diversified portfolio across climate-resilient sectors''"

definition recommendations :: "StressReport \<Rightarrow> string list" where
  "recommendations stressOutcomes =
     (if physical (risk_scores stressOutcomes) > 50 then [rec_physical] else []) @
     (if transition (risk_scores stressOutcomes) > 50 then [rec_transition] else []) @
     (if capital_ratio (projected stressOutcomes) < 12 then [rec_capital] else []) @
     (if npa_change (changes stressOutcomes) > 1 then [rec_credit] else []) @
     [rec_monitoring, rec_diversified]"

subsection \<open>The closed forms of the specification\<close>

text \<open>
  The impact terms and the projected metrics as the specification writes them, with
  the baseline constants \<open>2.5\<close>, \<open>6.5\<close> and \<open>15000\<close> in place. They are compared
  with the constants of the source below.
\<close>

definition spec_temperature_impact :: "real StressParams \<Rightarrow> real" where
  "spec_temperature_impact p = (temperature_rise p - 1.5)\<^sup>2 * 0.8"

definition spec_carbon_price_impact :: "real StressParams \<Rightarrow> real" where
  "spec_carbon_price_impact p = (carbon_price p - 1000) / 1000 * 0.3"

definition spec_green_investment_benefit :: "real StressParams \<Rightarrow> real" where
  "spec_green_investment_benefit p = green_investment_growth p * 0.02"

definition spec_fossil_phase_out_cost :: "real StressParams \<Rightarrow> real" where
  "spec_fossil_phase_out_cost p = fossil_phase_out p * 0.15"

definition spec_water_stress_impact :: "real StressParams \<Rightarrow> real" where
  "spec_water_stress_impact p = water_stress_level p / 100 * 0.5"

definition spec_disaster_impact :: "real StressParams \<Rightarrow> real" where
  "spec_disaster_impact p = (disaster_frequency p - 1) * 1.2"

definition spec_projected_npa :: "real StressParams \<Rightarrow> real" where
  "spec_projected_npa p =
     max 0 (2.5 + spec_temperature_impact p + spec_water_stress_impact p
            + spec_disaster_impact p - spec_green_investment_benefit p)"

definition spec_projected_gdp :: "real StressParams \<Rightarrow> real" where
  "spec_projected_gdp p =
     max 0 (6.5 - 0.5 * spec_temperature_impact p - 0.3 * spec_fossil_phase_out_cost p
            - 0.4 * spec_disaster_impact p + 0.2 * spec_green_investment_benefit p)"

definition spec_projected_expected_loss :: "real StressParams \<Rightarrow> real" where
  "spec_projected_expected_loss p =
     15000 * (1 + 0.2 * spec_temperature_impact p + 0.15 * spec_disaster_impact p)"

subsection \<open>Decimal numbers\<close>

text \<open>
  \<open>has_decimals d y\<close>: the number \<open>y\<close> is a decimal with at most \<open>d\<close> digits after
  the point. \<open>rounded_to d x y\<close>: the report value \<open>y\<close> is the source's rounding of
  \<open>x\<close> to \<open>d\<close> digits, it has at most \<open>d\<close> digits after the point, and it is
  within half a unit of the last digit of \<open>x\<close>.
\<close>

definition has_decimals :: "nat \<Rightarrow> real \<Rightarrow> bool" where
  "has_decimals d y = (of_int \<lfloor>y * 10 ^ d\<rfloor> = y * 10 ^ d)"

definition rounded_to :: "nat \<Rightarrow> real \<Rightarrow> real \<Rightarrow> bool" where
  "rounded_to d x y =
     (y = toFixed x d \<and> has_decimals d y \<and> \<bar>y - x\<bar> \<le> 1 / (2 * 10 ^ d))"

subsection \<open>The calculator over a given arithmetic\<close>

text \<open>
  The source computes with IEEE doubles: each of \<open>+\<close>, \<open>-\<close>, \<open>*\<close>, \<open>/\<close> and
  \<open>Math.pow\<close> returns a double close to the exact result, and a decimal numeral
  denotes the double closest to it. An \<open>Arith\<close> holds these operations. The
  definitions of this subsection repeat the calculator with the operations taken from
  an \<open>Arith\<close>, in the order in which the source applies them, so that what is proved
  for every \<open>Arith\<close> holds for the doubles of the source and for exact arithmetic alike.

  \<open>fl_lit\<close> reads a decimal numeral. It is applied to the literals of the source
  that have no finite binary expansion (\<open>0.8\<close>, \<open>0.3\<close>, \<open>0.02\<close>, \<open>0.15\<close>,
  \<open>1.2\<close>, \<open>0.2\<close>, \<open>0.4\<close>) and, for \<open>parseFloat\<close>, to the decimal that
  \<open>toFixed\<close> prints. The integers of the source and \<open>0.5\<close>, \<open>1.5\<close>, \<open>2.5\<close>,
  \<open>6.5\<close>, \<open>11.5\<close> and \<open>15.5\<close> are doubles and denote themselves. Comparisons,
  \<open>Math.max\<close> and \<open>Math.min\<close> are exact on doubles, and \<open>toFixed\<close> rounds the
  exact value of the double it is given.
\<close>

record Arith =
  fl_add :: "real \<Rightarrow> real \<Rightarrow> real"
  fl_sub :: "real \<Rightarrow> real \<Rightarrow> real"
  fl_mul :: "real \<Rightarrow> real \<Rightarrow> real"
  fl_div :: "real \<Rightarrow> real \<Rightarrow> real"
  fl_pow :: "real \<Rightarrow> nat \<Rightarrow> real"
  fl_lit :: "real \<Rightarrow> real"

text \<open>Exact arithmetic, the arithmetic of the definitions above.\<close>

definition exact_arith :: Arith where
  "exact_arith = \<lparr>fl_add = (+), fl_sub = (-), fl_mul = (*), fl_div = (/), fl_pow = (^),
     fl_lit = (\<lambda>x. x)\<rparr>"

definition temperatureImpact_in :: "Arith \<Rightarrow> real StressParams \<Rightarrow> real" where
  "temperatureImpact_in A p =
     fl_mul A (fl_pow A (fl_sub A (temperature_rise p) 1.5) 2) (fl_lit A 0.8)"

definition carbonPriceImpact_in :: "Arith \<Rightarrow> real StressParams \<Rightarrow> real" where
  "carbonPriceImpact_in A p =
     fl_mul A (fl_div A (fl_sub A (carbon_price p) 1000) 1000) (fl_lit A 0.3)"

definition greenInvestmentBenefit_in :: "Arith \<Rightarrow> real StressParams \<Rightarrow> real" where
  "greenInvestmentBenefit_in A p = fl_mul A (green_investment_growth p) (fl_lit A 0.02)"

definition fossilPhaseOutCost_in :: "Arith \<Rightarrow> real StressParams \<Rightarrow> real" where
  "fossilPhaseOutCost_in A p = fl_mul A (fossil_phase_out p) (fl_lit A 0.15)"

definition waterStressImpact_in :: "Arith \<Rightarrow> real StressParams \<Rightarrow> real" where
  "waterStressImpact_in A p = fl_mul A (fl_div A (water_stress_level p) 100) 0.5"

definition disasterImpact_in :: "Arith \<Rightarrow> real StressParams \<Rightarrow> real" where
  "disasterImpact_in A p = fl_mul A (fl_sub A (disaster_frequency p) 1) (fl_lit A 1.2)"

definition projectedNPA_in :: "Arith \<Rightarrow> real StressParams \<Rightarrow> real" where
  "projectedNPA_in A p =
     max 0 (fl_sub A
              (fl_add A (fl_add A (fl_add A baseNPA (temperatureImpact_in A p))
                                  (waterStressImpact_in A p))
                        (disasterImpact_in A p))
              (greenInvestmentBenefit_in A p))"

definition projectedGDP_in :: "Arith \<Rightarrow> real StressParams \<Rightarrow> real" where
  "projectedGDP_in A p =
     max 0 (fl_add A
              (fl_sub A
                 (fl_sub A
                    (fl_sub A baseGDP (fl_mul A (temperatureImpact_in A p) 0.5))
                    (fl_mul A (fossilPhaseOutCost_in A p) (fl_lit A 0.3)))
                 (fl_mul A (disasterImpact_in A p) (fl_lit A 0.4)))
              (fl_mul A (greenInvestmentBenefit_in A p) (fl_lit A 0.2)))"

definition projectedExpectedLoss_in :: "Arith \<Rightarrow> real StressParams \<Rightarrow> real" where
  "projectedExpectedLoss_in A p =
     fl_mul A baseExpectedLoss
       (fl_add A (fl_add A 1 (fl_mul A (temperatureImpact_in A p) (fl_lit A 0.2)))
                 (fl_mul A (disasterImpact_in A p) (fl_lit A 0.15)))"

definition projectedGreenFinance_in :: "Arith \<Rightarrow> real StressParams \<Rightarrow> real" where
  "projectedGreenFinance_in A p =
     fl_add A baseGreenFinance (fl_mul A (green_investment_growth p) 0.5)"

definition physicalRisk_in :: "Arith \<Rightarrow> real StressParams \<Rightarrow> real" where
  "physicalRisk_in A p =
     min 100 (fl_add A
                (fl_mul A
                   (fl_add A (fl_add A (temperatureImpact_in A p) (waterStressImpact_in A p))
                             (disasterImpact_in A p))
                   25)
                30)"

definition transitionRisk_in :: "Arith \<Rightarrow> real StressParams \<Rightarrow> real" where
  "transitionRisk_in A p =
     min 100 (fl_add A
                (fl_mul A (fl_add A (carbonPriceImpact_in A p) (fossilPhaseOutCost_in A p)) 20)
                25)"

definition financialRisk_in :: "Arith \<Rightarrow> real StressParams \<Rightarrow> real" where
  "financialRisk_in A p =
     min 100 (fl_add A
                (fl_mul A (fl_sub A (fl_div A (projectedNPA_in A p) baseNPA) 1) 50)
                40)"

definition operationalRisk_in :: "Arith \<Rightarrow> real StressParams \<Rightarrow> real" where
  "operationalRisk_in A p =
     min 100 (fl_add A
                (fl_mul A (fl_add A (disasterImpact_in A p) (waterStressImpact_in A p)) 30)
                20)"

definition regulatoryRisk_in :: "Arith \<Rightarrow> real StressParams \<Rightarrow> real" where
  "regulatoryRisk_in A p =
     min 100 (fl_add A (fl_mul A (fl_div A (carbon_price p) 1000) 15) 30)"

definition overallStressScore_in :: "Arith \<Rightarrow> real StressParams \<Rightarrow> real" where
  "overallStressScore_in A p =
     fl_div A
       (fl_add A
          (fl_add A
             (fl_add A (fl_add A (physicalRisk_in A p) (transitionRisk_in A p))
                       (financialRisk_in A p))
             (operationalRisk_in A p))
          (regulatoryRisk_in A p))
       5"

definition capitalImpact_in :: "Arith \<Rightarrow> real StressParams \<Rightarrow> real" where
  "capitalImpact_in A p =
     fl_mul A
       (fl_mul A (- 1)
          (fl_add A (temperatureImpact_in A p) (fl_div A (transitionRisk_in A p) 100)))
       2"

definition liquidityStress_in :: "Arith \<Rightarrow> real StressParams \<Rightarrow> real" where
  "liquidityStress_in A p =
     min 100 (fl_add A
                (fl_add A (fl_mul A (disasterImpact_in A p) 20)
                          (fl_mul A (waterStressImpact_in A p) 15))
                25)"

text \<open>\<open>parseFloat(x.toFixed(d))\<close> over the arithmetic.\<close>

definition parseFloat_toFixed :: "Arith \<Rightarrow> real \<Rightarrow> nat \<Rightarrow> real" where
  "parseFloat_toFixed A x d = fl_lit A (toFixed x d)"

definition calculateStressOutcomes_in :: "Arith \<Rightarrow> real StressParams \<Rightarrow> StressReport" where
  "calculateStressOutcomes_in A p = \<lparr>
     baseline = \<lparr>
       npa_ratio = baseNPA,
       gdp_growth = baseGDP,
       expected_loss = baseExpectedLoss,
       green_finance_share = baseGreenFinance,
       capital_ratio = 15.5,
       liquidity_coverage = 135\<rparr>,
     projected = \<lparr>
       npa_ratio = parseFloat_toFixed A (projectedNPA_in A p) 2,
       gdp_growth = parseFloat_toFixed A (projectedGDP_in A p) 2,
       expected_loss = parseFloat_toFixed A (projectedExpectedLoss_in A p) 0,
       green_finance_share = parseFloat_toFixed A (projectedGreenFinance_in A p) 1,
       capital_ratio = parseFloat_toFixed A (fl_add A 15.5 (capitalImpact_in A p)) 2,
       liquidity_coverage =
         parseFloat_toFixed A (fl_sub A 135 (fl_mul A (liquidityStress_in A p) 0.5)) 0\<rparr>,
     risk_scores = \<lparr>
       physical = parseFloat_toFixed A (physicalRisk_in A p) 1,
       transition = parseFloat_toFixed A (transitionRisk_in A p) 1,
       financial = parseFloat_toFixed A (financialRisk_in A p) 1,
       operational = parseFloat_toFixed A (operationalRisk_in A p) 1,
       regulatory = parseFloat_toFixed A (regulatoryRisk_in A p) 1,
       overall = parseFloat_toFixed A (overallStressScore_in A p) 1\<rparr>,
     changes = \<lparr>
       npa_change = parseFloat_toFixed A (fl_sub A (projectedNPA_in A p) baseNPA) 2,
       gdp_change = parseFloat_toFixed A (fl_sub A (projectedGDP_in A p) baseGDP) 2,
       loss_change_pct =
         parseFloat_toFixed A
           (fl_mul A
              (fl_div A (fl_sub A (projectedExpectedLoss_in A p) baseExpectedLoss)
                 baseExpectedLoss)
              100)
           1\<rparr>,
     stress_level =
       (if overallStressScore_in A p > 70 then ''Severe''
        else if overallStressScore_in A p > 50 then ''High''
        else if overallStressScore_in A p > 30 then ''Moderate''
        else ''Low''),
     capital_adequacy =
       (if fl_add A 15.5 (capitalImpact_in A p) \<ge> 11.5 then ''Adequate''
        else if fl_add A 15.5 (capitalImpact_in A p) \<ge> 9 then ''Watch''
        else ''Critical'')\<rparr>"

text \<open>
  \<open>rounded_in A d x y\<close>: the report value \<open>y\<close> is read back from the decimal that
  \<open>toFixed\<close> prints for the computed value \<open>x\<close> with \<open>d\<close> digits; and when \<open>x\<close> is
  below \<open>10^21\<close> in magnitude, that decimal has at most \<open>d\<close> digits after the point
  and is within half a unit of the last digit of \<open>x\<close>.
\<close>

definition rounded_in :: "Arith \<Rightarrow> nat \<Rightarrow> real \<Rightarrow> real \<Rightarrow> bool" where
  "rounded_in A d x y =
     (y = fl_lit A (toFixed x d) \<and>
      (\<bar>x\<bar> < 10 ^ 21 \<longrightarrow>
         has_decimals d (toFixed x d) \<and> \<bar>toFixed x d - x\<bar> \<le> 1 / (2 * 10 ^ d)))"

section \<open>Auxiliary facts\<close>

lemmas outcome_defs = temperatureImpact_def carbonPriceImpact_def greenInvestmentBenefit_def
  fossilPhaseOutCost_def waterStressImpact_def disasterImpact_def projectedNPA_def
  projectedGDP_def projectedExpectedLoss_def projectedGreenFinance_def physicalRisk_def
  transitionRisk_def financialRisk_def operationalRisk_def regulatoryRisk_def
  overallStressScore_def capitalImpact_def liquidityStress_def baseNPA_def baseGDP_def
  baseExpectedLoss_def baseGreenFinance_def

lemmas range_defs = in_range_def in_bounds_def STRESS_TEST_PARAMS_def

subsection \<open>Rounding half up\<close>

lemma half_up_mono:
  fixes x y :: real
  assumes "x \<le> y"
  shows "of_int \<lfloor>x * 10 ^ d + 1 / 2\<rfloor> / 10 ^ d \<le> (of_int \<lfloor>y * 10 ^ d + 1 / 2\<rfloor> / 10 ^ d :: real)"
proof -
  have "x * 10 ^ d + 1 / 2 \<le> y * 10 ^ d + 1 / 2"
    using assms by (simp add: mult_right_mono)
  then have "\<lfloor>x * 10 ^ d + 1 / 2\<rfloor> \<le> \<lfloor>y * 10 ^ d + 1 / 2\<rfloor>"
    by (rule floor_mono)
  then show ?thesis
    by (simp add: divide_right_mono)
qed

lemma half_up_le_int:
  fixes x :: real
  assumes "x \<le> of_int k"
  shows "of_int \<lfloor>x * 10 ^ d + 1 / 2\<rfloor> / 10 ^ d \<le> (of_int k :: real)"
proof -
  have "x * 10 ^ d + 1 / 2 \<le> of_int (k * 10 ^ d) + 1 / 2"
    using assms by (simp add: mult_right_mono)
  then have "\<lfloor>x * 10 ^ d + 1 / 2\<rfloor> \<le> \<lfloor>of_int (k * 10 ^ d) + (1 / 2 :: real)\<rfloor>"
    by (rule floor_mono)
  also have "\<dots> = k * 10 ^ d"
    by linarith
  finally have "(of_int \<lfloor>x * 10 ^ d + 1 / 2\<rfloor> :: real) \<le> of_int (k * 10 ^ d)"
    by linarith
  then show ?thesis
    by (simp add: pos_divide_le_eq)
qed

lemma half_up_ge_int:
  fixes x :: real
  assumes "of_int k \<le> x"
  shows "(of_int k :: real) \<le> of_int \<lfloor>x * 10 ^ d + 1 / 2\<rfloor> / 10 ^ d"
proof -
  have "of_int k * 10 ^ d \<le> x * 10 ^ d"
    using assms by (simp add: mult_right_mono)
  moreover have "(of_int (k * 10 ^ d) :: real) = of_int k * 10 ^ d"
    by simp
  ultimately have "of_int (k * 10 ^ d) \<le> x * 10 ^ d + 1 / 2"
    by linarith
  then have "k * 10 ^ d \<le> \<lfloor>x * 10 ^ d + 1 / 2\<rfloor>"
    by (simp add: le_floor_iff)
  then have "(of_int (k * 10 ^ d) :: real) \<le> of_int \<lfloor>x * 10 ^ d + 1 / 2\<rfloor>"
    by linarith
  then show ?thesis
    by (simp add: pos_le_divide_eq)
qed

lemma half_up_close:
  fixes x :: real
  shows "\<bar>of_int \<lfloor>x * 10 ^ d + 1 / 2\<rfloor> / 10 ^ d - x\<bar> \<le> 1 / (2 * 10 ^ d)"
proof -
  define u :: real where "u = 10 ^ d"
  have u: "0 < u" by (simp add: u_def)
  define n :: real where "n = of_int \<lfloor>x * u + 1 / 2\<rfloor>"
  have "n \<le> x * u + 1 / 2" "x * u + 1 / 2 < n + 1"
    unfolding n_def by linarith+
  then have "\<bar>n - x * u\<bar> \<le> 1 / 2" by linarith
  then have "\<bar>n - x * u\<bar> / u \<le> (1 / 2) / u"
    using u by (intro divide_right_mono) simp_all
  moreover have "\<bar>n - x * u\<bar> / u = \<bar>n / u - x\<bar>"
    using u by (simp add: abs_div_pos diff_divide_distrib)
  ultimately have "\<bar>n / u - x\<bar> \<le> 1 / (2 * u)"
    by simp
  then show ?thesis
    by (simp add: u_def n_def)
qed

lemma toFixed_le_int: "x \<le> of_int k \<Longrightarrow> toFixed x d \<le> of_int k"
proof -
  assume x: "x \<le> of_int k"
  have neg: "- real_of_int k \<le> of_int \<lfloor>(- x) * 10 ^ d + 1 / 2\<rfloor> / 10 ^ d"
    using half_up_ge_int [of "- k" "- x" d] x by simp
  show ?thesis
    using x neg half_up_le_int [of x k d] by (simp add: toFixed_def)
qed

lemma toFixed_ge_int: "of_int k \<le> x \<Longrightarrow> of_int k \<le> toFixed x d"
proof -
  assume x: "of_int k \<le> x"
  have neg: "of_int \<lfloor>(- x) * 10 ^ d + 1 / 2\<rfloor> / 10 ^ d \<le> - real_of_int k"
    using half_up_le_int [of "- x" "- k" d] x by simp
  show ?thesis
    using x neg half_up_ge_int [of k x d] by (simp add: toFixed_def)
qed

lemma toFixed_mono:
  assumes "x \<le> y"
  shows "toFixed x d \<le> toFixed y d"
proof -
  have big: "(10::real) ^ 21 = of_int (10 ^ 21)" "- ((10::real) ^ 21) = of_int (- (10 ^ 21))"
    by simp_all
  consider (xbig) "10 ^ 21 \<le> \<bar>x\<bar>" | (ybig) "\<bar>x\<bar> < 10 ^ 21" "10 ^ 21 \<le> \<bar>y\<bar>"
    | (small) "\<bar>x\<bar> < 10 ^ 21" "\<bar>y\<bar> < 10 ^ 21"
    by linarith
  then show ?thesis
  proof cases
    case xbig
    then have "toFixed x d = x" by (simp add: toFixed_def)
    moreover have "x \<le> toFixed y d"
    proof (cases "10 ^ 21 \<le> \<bar>y\<bar>")
      case True
      then show ?thesis using assms by (simp add: toFixed_def)
    next
      case False
      with xbig assms have "x \<le> of_int (- (10 ^ 21))" "of_int (- (10 ^ 21)) \<le> y"
        by simp_all
      then show ?thesis
        using toFixed_ge_int [of "- (10 ^ 21)" y d] by linarith
    qed
    ultimately show ?thesis by simp
  next
    case ybig
    then have "toFixed y d = y" by (simp add: toFixed_def)
    moreover from ybig assms have "x \<le> of_int (10 ^ 21)" "of_int (10 ^ 21) \<le> y"
      by simp_all
    then have "toFixed x d \<le> y"
      using toFixed_le_int [of x "10 ^ 21" d] by linarith
    ultimately show ?thesis by simp
  next
    case small
    show ?thesis
    proof (cases "x < 0")
      case xneg: True
      show ?thesis
      proof (cases "y < 0")
        case True
        with xneg small half_up_mono [of "- y" "- x" d] assms show ?thesis
          by (simp add: toFixed_def)
      next
        case False
        have "toFixed x d \<le> of_int 0"
          using xneg by (intro toFixed_le_int) simp
        moreover have "of_int 0 \<le> toFixed y d"
          using False by (intro toFixed_ge_int) simp
        ultimately show ?thesis by simp
      qed
    next
      case False
      with small assms half_up_mono [of x y d] show ?thesis
        by (simp add: toFixed_def)
    qed
  qed
qed

lemma toFixed_close:
  assumes "\<bar>x\<bar> < 10 ^ 21"
  shows "\<bar>toFixed x d - x\<bar> \<le> 1 / (2 * 10 ^ d)"
proof (cases "x < 0")
  case True
  have "\<bar>- (of_int \<lfloor>(- x) * 10 ^ d + 1 / 2\<rfloor> / 10 ^ d) - x\<bar>
        = \<bar>of_int \<lfloor>(- x) * 10 ^ d + 1 / 2\<rfloor> / 10 ^ d - (- x)\<bar>"
    by linarith
  with True assms half_up_close [of "- x" d] show ?thesis
    by (simp add: toFixed_def)
next
  case False
  with assms half_up_close [of x d] show ?thesis
    by (simp add: toFixed_def)
qed

lemma toFixed_decimal: "\<bar>x\<bar> < 10 ^ 21 \<Longrightarrow> has_decimals d (toFixed x d)"
  by (simp add: toFixed_def has_decimals_def)

subsection \<open>The fields of the report\<close>

lemma report_projected:
  "npa_ratio (projected (calculateStressOutcomes p)) = toFixed (projectedNPA p) 2"
  "gdp_growth (projected (calculateStressOutcomes p)) = toFixed (projectedGDP p) 2"
  "expected_loss (projected (calculateStressOutcomes p)) = toFixed (projectedExpectedLoss p) 0"
  "green_finance_share (projected (calculateStressOutcomes p))
     = toFixed (projectedGreenFinance p) 1"
  "capital_ratio (projected (calculateStressOutcomes p)) = toFixed (15.5 + capitalImpact p) 2"
  "liquidity_coverage (projected (calculateStressOutcomes p))
     = toFixed (135 - liquidityStress p * 0.5) 0"
  by (simp_all add: calculateStressOutcomes_def)

lemma report_risk_scores:
  "physical (risk_scores (calculateStressOutcomes p)) = toFixed (physicalRisk p) 1"
  "transition (risk_scores (calculateStressOutcomes p)) = toFixed (transitionRisk p) 1"
  "financial (risk_scores (calculateStressOutcomes p)) = toFixed (financialRisk p) 1"
  "operational (risk_scores (calculateStressOutcomes p)) = toFixed (operationalRisk p) 1"
  "regulatory (risk_scores (calculateStressOutcomes p)) = toFixed (regulatoryRisk p) 1"
  "overall (risk_scores (calculateStressOutcomes p)) = toFixed (overallStressScore p) 1"
  by (simp_all add: calculateStressOutcomes_def)

lemma report_changes:
  "npa_change (changes (calculateStressOutcomes p)) = toFixed (projectedNPA p - baseNPA) 2"
  "gdp_change (changes (calculateStressOutcomes p)) = toFixed (projectedGDP p - baseGDP) 2"
  "loss_change_pct (changes (calculateStressOutcomes p))
     = toFixed ((projectedExpectedLoss p - baseExpectedLoss) / baseExpectedLoss * 100) 1"
  by (simp_all add: calculateStressOutcomes_def)

lemma report_stress_level:
  "stress_level (calculateStressOutcomes p) =
     (if overallStressScore p > 70 then ''Severe''
      else if overallStressScore p > 50 then ''High''
      else if overallStressScore p > 30 then ''Moderate''
      else ''Low'')"
  by (simp add: calculateStressOutcomes_def)

lemma report_capital_adequacy:
  "capital_adequacy (calculateStressOutcomes p) =
     (if 15.5 + capitalImpact p \<ge> 11.5 then ''Adequate''
      else if 15.5 + capitalImpact p \<ge> 9 then ''Watch''
      else ''Critical'')"
  by (simp add: calculateStressOutcomes_def)

lemmas report_fields = report_projected report_risk_scores report_changes
  report_stress_level report_capital_adequacy

subsection \<open>Bounds for parameter vectors in range\<close>

lemma temperatureImpact_bounds:
  assumes "in_range p"
  shows "0 \<le> temperatureImpact p" "temperatureImpact p \<le> 5"
proof -
  show "0 \<le> temperatureImpact p"
    by (simp add: temperatureImpact_def)
  have "1 \<le> temperature_rise p" "temperature_rise p \<le> 4"
    using assms by (simp_all add: range_defs)
  then have "\<bar>temperature_rise p - 1.5\<bar> \<le> 2.5"
    by linarith
  then have "(temperature_rise p - 1.5)\<^sup>2 \<le> 2.5\<^sup>2"
    by (simp add: power2_le_iff_abs_le)
  then show "temperatureImpact p \<le> 5"
    by (simp add: temperatureImpact_def power2_eq_square)
qed

lemma impact_bounds:
  assumes "in_range p"
  shows "- 0.15 \<le> carbonPriceImpact p" "carbonPriceImpact p \<le> 1.2"
    and "0 \<le> greenInvestmentBenefit p" "greenInvestmentBenefit p \<le> 1"
    and "0 \<le> fossilPhaseOutCost p" "fossilPhaseOutCost p \<le> 2.25"
    and "0 \<le> waterStressImpact p" "waterStressImpact p \<le> 0.5"
    and "0 \<le> disasterImpact p" "disasterImpact p \<le> 2.4"
  using assms by (simp_all add: range_defs outcome_defs)

lemma projectedNPA_bounds:
  assumes "in_range p"
  shows "1.5 \<le> projectedNPA p" "projectedNPA p \<le> 10.4"
  using temperatureImpact_bounds [OF assms] impact_bounds [OF assms]
  by (simp_all add: projectedNPA_def baseNPA_def)

lemma projectedGDP_bounds:
  assumes "in_range p"
  shows "0 \<le> projectedGDP p" "projectedGDP p \<le> 6.7"
  using temperatureImpact_bounds [OF assms] impact_bounds [OF assms]
  by (simp_all add: projectedGDP_def baseGDP_def)

lemma risk_bounds:
  assumes "in_range p"
  shows "30 \<le> physicalRisk p" "physicalRisk p \<le> 100"
    and "22 \<le> transitionRisk p" "transitionRisk p \<le> 100"
    and "20 \<le> financialRisk p" "financialRisk p \<le> 100"
    and "20 \<le> operationalRisk p" "operationalRisk p \<le> 100"
    and "37.5 \<le> regulatoryRisk p" "regulatoryRisk p \<le> 100"
proof -
  note b = temperatureImpact_bounds [OF assms] impact_bounds [OF assms]
    projectedNPA_bounds [OF assms]
  show "30 \<le> physicalRisk p" "physicalRisk p \<le> 100"
    using b by (simp_all add: physicalRisk_def)
  show "22 \<le> transitionRisk p" "transitionRisk p \<le> 100"
    using b by (simp_all add: transitionRisk_def)
  show "20 \<le> financialRisk p" "financialRisk p \<le> 100"
    using b by (simp_all add: financialRisk_def baseNPA_def)
  show "20 \<le> operationalRisk p" "operationalRisk p \<le> 100"
    using b by (simp_all add: operationalRisk_def)
  show "37.5 \<le> regulatoryRisk p" "regulatoryRisk p \<le> 100"
    using assms by (simp_all add: regulatoryRisk_def range_defs)
qed

lemma overall_bounds:
  assumes "in_range p"
  shows "25.9 \<le> overallStressScore p" "overallStressScore p \<le> 100"
  using risk_bounds [OF assms] by (simp_all add: overallStressScore_def)

subsection \<open>The recommendation texts\<close>

lemma rec_distinct:
  "distinct [rec_physical, rec_transition, rec_capital, rec_credit, rec_monitoring,
             rec_diversified]"
  by (simp add: rec_physical_def rec_transition_def rec_capital_def rec_credit_def
      rec_monitoring_def rec_diversified_def)

subsection \<open>Exact arithmetic as an instance\<close>

lemma exact_impacts:
  "temperatureImpact_in exact_arith p = temperatureImpact p"
  "carbonPriceImpact_in exact_arith p = carbonPriceImpact p"
  "greenInvestmentBenefit_in exact_arith p = greenInvestmentBenefit p"
  "fossilPhaseOutCost_in exact_arith p = fossilPhaseOutCost p"
  "waterStressImpact_in exact_arith p = waterStressImpact p"
  "disasterImpact_in exact_arith p = disasterImpact p"
  by (simp_all add: exact_arith_def temperatureImpact_in_def carbonPriceImpact_in_def
      greenInvestmentBenefit_in_def fossilPhaseOutCost_in_def waterStressImpact_in_def
      disasterImpact_in_def temperatureImpact_def carbonPriceImpact_def
      greenInvestmentBenefit_def fossilPhaseOutCost_def waterStressImpact_def
      disasterImpact_def)

lemma exact_projected:
  "projectedNPA_in exact_arith p = projectedNPA p"
  "projectedGDP_in exact_arith p = projectedGDP p"
  "projectedExpectedLoss_in exact_arith p = projectedExpectedLoss p"
  "projectedGreenFinance_in exact_arith p = projectedGreenFinance p"
  by (simp_all add: projectedNPA_in_def projectedGDP_in_def projectedExpectedLoss_in_def
      projectedGreenFinance_in_def projectedNPA_def projectedGDP_def
      projectedExpectedLoss_def projectedGreenFinance_def exact_impacts)
    (simp_all add: exact_arith_def)

lemma exact_risks:
  "physicalRisk_in exact_arith p = physicalRisk p"
  "transitionRisk_in exact_arith p = transitionRisk p"
  "financialRisk_in exact_arith p = financialRisk p"
  "operationalRisk_in exact_arith p = operationalRisk p"
  "regulatoryRisk_in exact_arith p = regulatoryRisk p"
  by (simp_all add: physicalRisk_in_def transitionRisk_in_def financialRisk_in_def
      operationalRisk_in_def regulatoryRisk_in_def physicalRisk_def transitionRisk_def
      financialRisk_def operationalRisk_def regulatoryRisk_def exact_impacts exact_projected)
    (simp_all add: exact_arith_def)

lemma exact_aggregates:
  "overallStressScore_in exact_arith p = overallStressScore p"
  "capitalImpact_in exact_arith p = capitalImpact p"
  "liquidityStress_in exact_arith p = liquidityStress p"
  by (simp_all add: overallStressScore_in_def capitalImpact_in_def liquidityStress_in_def
      overallStressScore_def capitalImpact_def liquidityStress_def exact_impacts exact_risks)
    (simp_all add: exact_arith_def)

lemma exact_ops:
  "fl_add exact_arith x y = x + y" "fl_sub exact_arith x y = x - y"
  "fl_mul exact_arith x y = x * y" "fl_div exact_arith x y = x / y"
  "fl_lit exact_arith x = x"
  by (simp_all add: exact_arith_def)

lemmas exact_locals = exact_impacts exact_projected exact_risks exact_aggregates

lemma calculateStressOutcomes_exact:
  "calculateStressOutcomes_in exact_arith p = calculateStressOutcomes p"
  by (simp add: calculateStressOutcomes_in_def calculateStressOutcomes_def
      parseFloat_toFixed_def exact_locals exact_ops)

lemma report_in_stress_level:
  "stress_level (calculateStressOutcomes_in A p) =
     (if overallStressScore_in A p > 70 then ''Severe''
      else if overallStressScore_in A p > 50 then ''High''
      else if overallStressScore_in A p > 30 then ''Moderate''
      else ''Low'')"
  by (simp add: calculateStressOutcomes_in_def)

lemma report_in_capital_adequacy:
  "capital_adequacy (calculateStressOutcomes_in A p) =
     (if fl_add A 15.5 (capitalImpact_in A p) \<ge> 11.5 then ''Adequate''
      else if fl_add A 15.5 (capitalImpact_in A p) \<ge> 9 then ''Watch''
      else ''Critical'')"
  by (simp add: calculateStressOutcomes_in_def)

lemma report_in_projected:
  "npa_ratio (projected (calculateStressOutcomes_in A p))
     = parseFloat_toFixed A (projectedNPA_in A p) 2"
  "gdp_growth (projected (calculateStressOutcomes_in A p))
     = parseFloat_toFixed A (projectedGDP_in A p) 2"
  "expected_loss (projected (calculateStressOutcomes_in A p))
     = parseFloat_toFixed A (projectedExpectedLoss_in A p) 0"
  "green_finance_share (projected (calculateStressOutcomes_in A p))
     = parseFloat_toFixed A (projectedGreenFinance_in A p) 1"
  "capital_ratio (projected (calculateStressOutcomes_in A p))
     = parseFloat_toFixed A (fl_add A 15.5 (capitalImpact_in A p)) 2"
  "liquidity_coverage (projected (calculateStressOutcomes_in A p))
     = parseFloat_toFixed A (fl_sub A 135 (fl_mul A (liquidityStress_in A p) 0.5)) 0"
  by (simp_all add: calculateStressOutcomes_in_def)

lemma report_in_risk_scores:
  "physical (risk_scores (calculateStressOutcomes_in A p))
     = parseFloat_toFixed A (physicalRisk_in A p) 1"
  "transition (risk_scores (calculateStressOutcomes_in A p))
     = parseFloat_toFixed A (transitionRisk_in A p) 1"
  "financial (risk_scores (calculateStressOutcomes_in A p))
     = parseFloat_toFixed A (financialRisk_in A p) 1"
  "operational (risk_scores (calculateStressOutcomes_in A p))
     = parseFloat_toFixed A (operationalRisk_in A p) 1"
  "regulatory (risk_scores (calculateStressOutcomes_in A p))
     = parseFloat_toFixed A (regulatoryRisk_in A p) 1"
  "overall (risk_scores (calculateStressOutcomes_in A p))
     = parseFloat_toFixed A (overallStressScore_in A p) 1"
  by (simp_all add: calculateStressOutcomes_in_def)

lemma report_in_changes:
  "npa_change (changes (calculateStressOutcomes_in A p))
     = parseFloat_toFixed A (fl_sub A (projectedNPA_in A p) baseNPA) 2"
  "gdp_change (changes (calculateStressOutcomes_in A p))
     = parseFloat_toFixed A (fl_sub A (projectedGDP_in A p) baseGDP) 2"
  "loss_change_pct (changes (calculateStressOutcomes_in A p))
     = parseFloat_toFixed A
         (fl_mul A
            (fl_div A (fl_sub A (projectedExpectedLoss_in A p) baseExpectedLoss)
               baseExpectedLoss)
            100)
         1"
  by (simp_all add: calculateStressOutcomes_in_def)

lemma rounded_in_parseFloat_toFixed: "rounded_in A d x (parseFloat_toFixed A x d)"
  by (simp add: rounded_in_def parseFloat_toFixed_def toFixed_decimal toFixed_close)

subsection \<open>The presets\<close>

lemma preset_climate_crisis:
  "preset_params ''Climate Crisis'' =
     [\<lparr>temperature_rise = 3.5, carbon_price = 500, green_investment_growth = 5,
       fossil_phase_out = 1, water_stress_level = 80, disaster_frequency = 2.5\<rparr>]"
  by code_simp

section \<open>The claims\<close>

subsection \<open>C1: the preset Climate Crisis\<close>

text \<open>
  C1, as stated: the report computed for the preset named Climate Crisis has the stress
  level Severe. It does not. The list of presets has exactly one entry of that name, with
  the parameter vector of the claim, and the label of its report differs from Severe.
\<close>

theorem climate_crisis_not_severe:
  "preset_params ''Climate Crisis'' =
     [\<lparr>temperature_rise = 3.5, carbon_price = 500, green_investment_growth = 5,
       fossil_phase_out = 1, water_stress_level = 80, disaster_frequency = 2.5\<rparr>]
   \<and> stress_level (calculateStressOutcomes
         \<lparr>temperature_rise = 3.5, carbon_price = 500, green_investment_growth = 5,
          fossil_phase_out = 1, water_stress_level = 80, disaster_frequency = 2.5\<rparr>)
       \<noteq> ''Severe''"
  by (simp add: preset_climate_crisis report_fields outcome_defs)

text \<open>
  C1, amended: for the preset named Climate Crisis the five risk scores are 100, 25, 100,
  86 and 37.5, the overall score is 69.7, before and after rounding, which is not above
  70, and the stress level of the report is High.
\<close>

theorem climate_crisis_high:
  "map (\<lambda>p. ([physicalRisk p, transitionRisk p, financialRisk p, operationalRisk p,
               regulatoryRisk p],
              overallStressScore p,
              overall (risk_scores (calculateStressOutcomes p)),
              stress_level (calculateStressOutcomes p)))
     (preset_params ''Climate Crisis'')
   = [([100, 25, 100, 86, 37.5], 69.7, 69.7, ''High'')]"
  by (simp add: preset_climate_crisis report_fields outcome_defs toFixed_def)

subsection \<open>C2: the stress level\<close>

text \<open>
  C2: for every parameter vector in range, and whatever the arithmetic, the stress level
  of the report is decided by the overall score the calculator computed, with strict
  comparisons taken in order: Severe exactly when it is above 70, High exactly when it
  is above 50 and not above 70, Moderate exactly when it is above 30 and not above 50,
  Low otherwise. A computed overall score of exactly 70 gives High, one of 70.01 gives
  Severe.
\<close>

theorem stress_level_thresholds:
  assumes "in_range p"
  shows "(stress_level (calculateStressOutcomes_in A p) = ''Severe''
            \<longleftrightarrow> overallStressScore_in A p > 70)
       \<and> (stress_level (calculateStressOutcomes_in A p) = ''High''
            \<longleftrightarrow> \<not> overallStressScore_in A p > 70 \<and> overallStressScore_in A p > 50)
       \<and> (stress_level (calculateStressOutcomes_in A p) = ''Moderate''
            \<longleftrightarrow> \<not> overallStressScore_in A p > 50 \<and> overallStressScore_in A p > 30)
       \<and> (stress_level (calculateStressOutcomes_in A p) = ''Low''
            \<longleftrightarrow> \<not> overallStressScore_in A p > 30)
       \<and> (overallStressScore_in A p = 70.0
            \<longrightarrow> stress_level (calculateStressOutcomes_in A p) = ''High'')
       \<and> (overallStressScore_in A p = 70.01
            \<longrightarrow> stress_level (calculateStressOutcomes_in A p) = ''Severe'')"
  by (simp add: report_in_stress_level)

text \<open>
  The witness takes exact arithmetic and two parameter vectors on the grid of the
  sliders whose overall scores are exactly 70 and exactly 70.01.
\<close>

theorem stress_level_thresholds_witness:
  "in_range \<lparr>temperature_rise = 3.5, carbon_price = 500, green_investment_growth = 5,
             fossil_phase_out = 1.5, water_stress_level = 80, disaster_frequency = 2.5\<rparr>
   \<and> overallStressScore_in exact_arith
        \<lparr>temperature_rise = 3.5, carbon_price = 500, green_investment_growth = 5,
         fossil_phase_out = 1.5, water_stress_level = 80, disaster_frequency = 2.5\<rparr> = 70.0
   \<and> stress_level (calculateStressOutcomes_in exact_arith
        \<lparr>temperature_rise = 3.5, carbon_price = 500, green_investment_growth = 5,
         fossil_phase_out = 1.5, water_stress_level = 80, disaster_frequency = 2.5\<rparr>) = ''High''
   \<and> in_range \<lparr>temperature_rise = 1.5, carbon_price = 900, green_investment_growth = 20,
             fossil_phase_out = 0, water_stress_level = 78, disaster_frequency = 2.9\<rparr>
   \<and> overallStressScore_in exact_arith
        \<lparr>temperature_rise = 1.5, carbon_price = 900, green_investment_growth = 20,
         fossil_phase_out = 0, water_stress_level = 78, disaster_frequency = 2.9\<rparr> = 70.01
   \<and> stress_level (calculateStressOutcomes_in exact_arith
        \<lparr>temperature_rise = 1.5, carbon_price = 900, green_investment_growth = 20,
         fossil_phase_out = 0, water_stress_level = 78, disaster_frequency = 2.9\<rparr>)
       = ''Severe''"
proof -
  let ?a = "\<lparr>temperature_rise = 3.5, carbon_price = 500, green_investment_growth = 5,
             fossil_phase_out = 1.5, water_stress_level = 80, disaster_frequency = 2.5 :: real\<rparr>"
  let ?b = "\<lparr>temperature_rise = 1.5, carbon_price = 900, green_investment_growth = 20,
             fossil_phase_out = 0, water_stress_level = 78, disaster_frequency = 2.9 :: real\<rparr>"
  have ra: "in_range ?a" and rb: "in_range ?b"
    by (simp_all add: range_defs)
  have oa: "overallStressScore_in exact_arith ?a = 70.0"
    by (simp add: exact_locals outcome_defs)
  have ob: "overallStressScore_in exact_arith ?b = 70.01"
    by (simp add: exact_locals outcome_defs)
  have "stress_level (calculateStressOutcomes_in exact_arith ?a) = ''High''"
    using stress_level_thresholds [OF ra, of exact_arith] oa by blast
  moreover have "stress_level (calculateStressOutcomes_in exact_arith ?b) = ''Severe''"
    using stress_level_thresholds [OF rb, of exact_arith] ob by blast
  ultimately show ?thesis
    using ra rb oa ob by blast
qed

subsection \<open>C3: the rounding of the report\<close>

text \<open>
  C3, as stated: the five risk scores and the overall score of the report are rounded to
  two decimals. They are not. At the default parameters with a temperature rise of 1.6
  the financial risk is 48.66, a number of two decimals, and the report carries 48.7.
\<close>

theorem scores_not_two_decimals:
  "in_range \<lparr>temperature_rise = 1.6, carbon_price = 1000, green_investment_growth = 20,
             fossil_phase_out = 5, water_stress_level = 45, disaster_frequency = 1.5\<rparr>
   \<and> financialRisk
        \<lparr>temperature_rise = 1.6, carbon_price = 1000, green_investment_growth = 20,
         fossil_phase_out = 5, water_stress_level = 45, disaster_frequency = 1.5\<rparr> = 48.66
   \<and> financial (risk_scores (calculateStressOutcomes
        \<lparr>temperature_rise = 1.6, carbon_price = 1000, green_investment_growth = 20,
         fossil_phase_out = 5, water_stress_level = 45, disaster_frequency = 1.5\<rparr>)) = 48.7
   \<and> \<not> rounded_to 2
        (financialRisk
          \<lparr>temperature_rise = 1.6, carbon_price = 1000, green_investment_growth = 20,
           fossil_phase_out = 5, water_stress_level = 45, disaster_frequency = 1.5\<rparr>)
        (financial (risk_scores (calculateStressOutcomes
          \<lparr>temperature_rise = 1.6, carbon_price = 1000, green_investment_growth = 20,
           fossil_phase_out = 5, water_stress_level = 45, disaster_frequency = 1.5\<rparr>)))"
  by (simp add: range_defs report_fields outcome_defs toFixed_def rounded_to_def
      power2_eq_square)

text \<open>
  C3, amended: for every parameter vector in range, and whatever the arithmetic, every
  numeric field of the projected metrics, the risk scores and the changes is the
  computed value passed through \<open>toFixed\<close> and \<open>parseFloat\<close> with a fixed number of
  decimals: two for the NPA ratio, the GDP growth, the capital ratio, the NPA change and
  the GDP change; one for the five risk scores, the overall score, the green finance
  share and the loss change in percent; none for the expected loss and the liquidity
  coverage. The decimal printed for a computed value below \<open>10^21\<close> in magnitude has
  at most that many digits after the point and is within half a unit of the last digit
  of the computed value.
\<close>

theorem report_rounding_policy:
  assumes "in_range p"
  shows "rounded_in A 2 (projectedNPA_in A p)
            (npa_ratio (projected (calculateStressOutcomes_in A p)))
       \<and> rounded_in A 2 (projectedGDP_in A p)
            (gdp_growth (projected (calculateStressOutcomes_in A p)))
       \<and> rounded_in A 0 (projectedExpectedLoss_in A p)
            (expected_loss (projected (calculateStressOutcomes_in A p)))
       \<and> rounded_in A 1 (projectedGreenFinance_in A p)
            (green_finance_share (projected (calculateStressOutcomes_in A p)))
       \<and> rounded_in A 2 (fl_add A 15.5 (capitalImpact_in A p))
            (capital_ratio (projected (calculateStressOutcomes_in A p)))
       \<and> rounded_in A 0 (fl_sub A 135 (fl_mul A (liquidityStress_in A p) 0.5))
            (liquidity_coverage (projected (calculateStressOutcomes_in A p)))
       \<and> rounded_in A 1 (physicalRisk_in A p)
            (physical (risk_scores (calculateStressOutcomes_in A p)))
       \<and> rounded_in A 1 (transitionRisk_in A p)
            (transition (risk_scores (calculateStressOutcomes_in A p)))
       \<and> rounded_in A 1 (financialRisk_in A p)
            (financial (risk_scores (calculateStressOutcomes_in A p)))
       \<and> rounded_in A 1 (operationalRisk_in A p)
            (operational (risk_scores (calculateStressOutcomes_in A p)))
       \<and> rounded_in A 1 (regulatoryRisk_in A p)
            (regulatory (risk_scores (calculateStressOutcomes_in A p)))
       \<and> rounded_in A 1 (overallStressScore_in A p)
            (overall (risk_scores (calculateStressOutcomes_in A p)))
       \<and> rounded_in A 2 (fl_sub A (projectedNPA_in A p) baseNPA)
            (npa_change (changes (calculateStressOutcomes_in A p)))
       \<and> rounded_in A 2 (fl_sub A (projectedGDP_in A p) baseGDP)
            (gdp_change (changes (calculateStressOutcomes_in A p)))
       \<and> rounded_in A 1
            (fl_mul A
               (fl_div A (fl_sub A (projectedExpectedLoss_in A p) baseExpectedLoss)
                  baseExpectedLoss)
               100)
            (loss_change_pct (changes (calculateStressOutcomes_in A p)))"
  by (simp add: report_in_projected report_in_risk_scores report_in_changes
      rounded_in_parseFloat_toFixed)

text \<open>
  The witness takes exact arithmetic and the default parameters with a temperature rise
  of 1.6, where no computed value is halfway between two decimals.
\<close>

theorem report_rounding_policy_witness:
  "in_range (defaults\<lparr>temperature_rise := 1.6\<rparr>)
   \<and> physicalRisk_in exact_arith (defaults\<lparr>temperature_rise := 1.6\<rparr>) = 50.825
   \<and> physical (risk_scores
        (calculateStressOutcomes_in exact_arith (defaults\<lparr>temperature_rise := 1.6\<rparr>))) = 50.8
   \<and> has_decimals 1 (50.8 :: real) \<and> \<bar>50.8 - 50.825 :: real\<bar> \<le> 1 / (2 * 10 ^ 1)
   \<and> projectedNPA_in exact_arith (defaults\<lparr>temperature_rise := 1.6\<rparr>) = 2.933
   \<and> npa_ratio (projected
        (calculateStressOutcomes_in exact_arith (defaults\<lparr>temperature_rise := 1.6\<rparr>))) = 2.93
   \<and> has_decimals 2 (2.93 :: real) \<and> \<bar>2.93 - 2.933 :: real\<bar> \<le> 1 / (2 * 10 ^ 2)
   \<and> rounded_in exact_arith 0
        (projectedExpectedLoss_in exact_arith (defaults\<lparr>temperature_rise := 1.6\<rparr>))
        (expected_loss (projected
          (calculateStressOutcomes_in exact_arith (defaults\<lparr>temperature_rise := 1.6\<rparr>))))"
proof -
  let ?p = "defaults\<lparr>temperature_rise := 1.6\<rparr>"
  have h: "in_range ?p"
    by (simp add: range_defs defaults_def)
  have x: "physicalRisk_in exact_arith ?p = 50.825" "projectedNPA_in exact_arith ?p = 2.933"
    by (simp_all add: exact_locals outcome_defs defaults_def STRESS_TEST_PARAMS_def
        power2_eq_square)
  have t: "toFixed 50.825 1 = 50.8" "toFixed 2.933 2 = 2.93"
    by (simp_all add: toFixed_def)
  have small: "\<bar>50.825 :: real\<bar> < 10 ^ 21" "\<bar>2.933 :: real\<bar> < 10 ^ 21"
    by simp_all
  note r = report_rounding_policy [OF h, of exact_arith]
  from r have "rounded_in exact_arith 1 (physicalRisk_in exact_arith ?p)
      (physical (risk_scores (calculateStressOutcomes_in exact_arith ?p)))"
    by blast
  then have "physical (risk_scores (calculateStressOutcomes_in exact_arith ?p)) = 50.8
      \<and> (\<bar>50.825 :: real\<bar> < 10 ^ 21
        \<longrightarrow> has_decimals 1 (50.8 :: real) \<and> \<bar>50.8 - 50.825 :: real\<bar> \<le> 1 / (2 * 10 ^ 1))"
    unfolding x rounded_in_def t exact_ops .
  with small have phys: "physical (risk_scores (calculateStressOutcomes_in exact_arith ?p)) = 50.8
      \<and> has_decimals 1 (50.8 :: real) \<and> \<bar>50.8 - 50.825 :: real\<bar> \<le> 1 / (2 * 10 ^ 1)"
    by blast
  from r have "rounded_in exact_arith 2 (projectedNPA_in exact_arith ?p)
      (npa_ratio (projected (calculateStressOutcomes_in exact_arith ?p)))"
    by blast
  then have "npa_ratio (projected (calculateStressOutcomes_in exact_arith ?p)) = 2.93
      \<and> (\<bar>2.933 :: real\<bar> < 10 ^ 21
        \<longrightarrow> has_decimals 2 (2.93 :: real) \<and> \<bar>2.93 - 2.933 :: real\<bar> \<le> 1 / (2 * 10 ^ 2))"
    unfolding x rounded_in_def t exact_ops .
  with small have npa: "npa_ratio (projected (calculateStressOutcomes_in exact_arith ?p)) = 2.93
      \<and> has_decimals 2 (2.93 :: real) \<and> \<bar>2.93 - 2.933 :: real\<bar> \<le> 1 / (2 * 10 ^ 2)"
    by blast
  from r have loss: "rounded_in exact_arith 0 (projectedExpectedLoss_in exact_arith ?p)
      (expected_loss (projected (calculateStressOutcomes_in exact_arith ?p)))"
    by blast
  show ?thesis
    using h x phys npa loss by blast
qed

subsection \<open>C4: the closed forms\<close>

text \<open>
  C4: for every parameter vector in range, the six impact terms, the projected NPA
  ratio, the projected GDP growth and the projected expected loss of the calculator are
  the closed forms of the specification.
\<close>

theorem closed_forms:
  assumes "in_range p"
  shows "temperatureImpact p = spec_temperature_impact p
       \<and> carbonPriceImpact p = spec_carbon_price_impact p
       \<and> greenInvestmentBenefit p = spec_green_investment_benefit p
       \<and> fossilPhaseOutCost p = spec_fossil_phase_out_cost p
       \<and> waterStressImpact p = spec_water_stress_impact p
       \<and> disasterImpact p = spec_disaster_impact p
       \<and> projectedNPA p = spec_projected_npa p
       \<and> projectedGDP p = spec_projected_gdp p
       \<and> projectedExpectedLoss p = spec_projected_expected_loss p"
proof -
  have impacts: "temperatureImpact p = spec_temperature_impact p"
    "carbonPriceImpact p = spec_carbon_price_impact p"
    "greenInvestmentBenefit p = spec_green_investment_benefit p"
    "fossilPhaseOutCost p = spec_fossil_phase_out_cost p"
    "waterStressImpact p = spec_water_stress_impact p"
    "disasterImpact p = spec_disaster_impact p"
    by (simp_all add: outcome_defs spec_temperature_impact_def spec_carbon_price_impact_def
        spec_green_investment_benefit_def spec_fossil_phase_out_cost_def
        spec_water_stress_impact_def spec_disaster_impact_def)
  have npa: "projectedNPA p = spec_projected_npa p"
    by (simp add: projectedNPA_def spec_projected_npa_def impacts baseNPA_def)
  have gdp: "projectedGDP p = spec_projected_gdp p"
    by (simp add: projectedGDP_def spec_projected_gdp_def impacts baseGDP_def mult.commute)
  have loss: "projectedExpectedLoss p = spec_projected_expected_loss p"
    by (simp add: projectedExpectedLoss_def spec_projected_expected_loss_def impacts
        baseExpectedLoss_def mult.commute)
  show ?thesis
    using impacts npa gdp loss by simp
qed

theorem closed_forms_witness:
  "in_range defaults
   \<and> spec_temperature_impact defaults = 0 \<and> temperatureImpact defaults = 0
   \<and> spec_disaster_impact defaults = 0.6 \<and> disasterImpact defaults = 0.6
   \<and> spec_projected_npa defaults = 2.925 \<and> projectedNPA defaults = 2.925
   \<and> spec_projected_gdp defaults = 6.115 \<and> projectedGDP defaults = 6.115
   \<and> spec_projected_expected_loss defaults = 16350
   \<and> projectedExpectedLoss defaults = 16350"
proof -
  have h: "in_range defaults"
    by (simp add: range_defs defaults_def)
  have "spec_temperature_impact defaults = 0" "spec_disaster_impact defaults = 0.6"
    "spec_projected_npa defaults = 2.925" "spec_projected_gdp defaults = 6.115"
    "spec_projected_expected_loss defaults = 16350"
    by (simp_all add: spec_temperature_impact_def spec_carbon_price_impact_def
        spec_green_investment_benefit_def spec_fossil_phase_out_cost_def
        spec_water_stress_impact_def spec_disaster_impact_def spec_projected_npa_def
        spec_projected_gdp_def spec_projected_expected_loss_def defaults_def
        STRESS_TEST_PARAMS_def)
  then show ?thesis
    using h closed_forms [OF h] by simp
qed

subsection \<open>C5: the capital adequacy\<close>

text \<open>
  C5: for every parameter vector in range, and whatever the arithmetic, the capital
  impact is minus one times the sum of the temperature impact and a hundredth of the
  transition risk, times two; the projected capital ratio is 15.5 plus the capital
  impact; and the capital adequacy of the report is decided by the computed ratio:
  Adequate exactly when it is at least 11.5, Watch exactly when it is below 11.5 and at
  least 9, Critical otherwise. A computed ratio of exactly 11.5 gives Adequate, one of
  11.49 gives Watch.
\<close>

theorem capital_adequacy_thresholds:
  assumes "in_range p"
  shows "capitalImpact_in A p
           = fl_mul A
               (fl_mul A (- 1)
                  (fl_add A (temperatureImpact_in A p) (fl_div A (transitionRisk_in A p) 100)))
               2
       \<and> (capital_adequacy (calculateStressOutcomes_in A p) = ''Adequate''
            \<longleftrightarrow> fl_add A 15.5 (capitalImpact_in A p) \<ge> 11.5)
       \<and> (capital_adequacy (calculateStressOutcomes_in A p) = ''Watch''
            \<longleftrightarrow> \<not> fl_add A 15.5 (capitalImpact_in A p) \<ge> 11.5
                \<and> fl_add A 15.5 (capitalImpact_in A p) \<ge> 9)
       \<and> (capital_adequacy (calculateStressOutcomes_in A p) = ''Critical''
            \<longleftrightarrow> \<not> fl_add A 15.5 (capitalImpact_in A p) \<ge> 9)
       \<and> (fl_add A 15.5 (capitalImpact_in A p) = 11.5
            \<longrightarrow> capital_adequacy (calculateStressOutcomes_in A p) = ''Adequate'')
       \<and> (fl_add A 15.5 (capitalImpact_in A p) = 11.49
            \<longrightarrow> capital_adequacy (calculateStressOutcomes_in A p) = ''Watch'')"
  by (simp add: report_in_capital_adequacy capitalImpact_in_def)

text \<open>
  The witness takes exact arithmetic. In exact arithmetic no parameter vector of doubles
  has a ratio of exactly 11.5, so the first vector has a fraction for the phase-out
  rate; the second, with a ratio of exactly 11.49, is on the grid of the sliders.
\<close>

theorem capital_adequacy_thresholds_witness:
  "in_range \<lparr>temperature_rise = 2.9, carbon_price = 1000, green_investment_growth = 20,
             fossil_phase_out = 91 / 15, water_stress_level = 45, disaster_frequency = 1.5\<rparr>
   \<and> fl_add exact_arith 15.5 (capitalImpact_in exact_arith
        \<lparr>temperature_rise = 2.9, carbon_price = 1000, green_investment_growth = 20,
         fossil_phase_out = 91 / 15, water_stress_level = 45, disaster_frequency = 1.5\<rparr>)
       = 11.5
   \<and> capital_adequacy (calculateStressOutcomes_in exact_arith
        \<lparr>temperature_rise = 2.9, carbon_price = 1000, green_investment_growth = 20,
         fossil_phase_out = 91 / 15, water_stress_level = 45, disaster_frequency = 1.5\<rparr>)
       = ''Adequate''
   \<and> in_range \<lparr>temperature_rise = 2.7, carbon_price = 3800, green_investment_growth = 20,
             fossil_phase_out = 14.5, water_stress_level = 45, disaster_frequency = 1.5\<rparr>
   \<and> fl_add exact_arith 15.5 (capitalImpact_in exact_arith
        \<lparr>temperature_rise = 2.7, carbon_price = 3800, green_investment_growth = 20,
         fossil_phase_out = 14.5, water_stress_level = 45, disaster_frequency = 1.5\<rparr>)
       = 11.49
   \<and> capital_adequacy (calculateStressOutcomes_in exact_arith
        \<lparr>temperature_rise = 2.7, carbon_price = 3800, green_investment_growth = 20,
         fossil_phase_out = 14.5, water_stress_level = 45, disaster_frequency = 1.5\<rparr>)
       = ''Watch''"
proof -
  let ?a = "\<lparr>temperature_rise = 2.9, carbon_price = 1000, green_investment_growth = 20,
             fossil_phase_out = 91 / 15, water_stress_level = 45, disaster_frequency = 1.5 :: real\<rparr>"
  let ?b = "\<lparr>temperature_rise = 2.7, carbon_price = 3800, green_investment_growth = 20,
             fossil_phase_out = 14.5, water_stress_level = 45, disaster_frequency = 1.5 :: real\<rparr>"
  have ra: "in_range ?a" and rb: "in_range ?b"
    by (simp_all add: range_defs)
  have ca: "fl_add exact_arith 15.5 (capitalImpact_in exact_arith ?a) = 11.5"
    by (simp add: exact_locals exact_ops outcome_defs power2_eq_square)
  have cb: "fl_add exact_arith 15.5 (capitalImpact_in exact_arith ?b) = 11.49"
    by (simp add: exact_locals exact_ops outcome_defs power2_eq_square)
  have "capital_adequacy (calculateStressOutcomes_in exact_arith ?a) = ''Adequate''"
    using capital_adequacy_thresholds [OF ra, of exact_arith] ca by blast
  moreover have "capital_adequacy (calculateStressOutcomes_in exact_arith ?b) = ''Watch''"
    using capital_adequacy_thresholds [OF rb, of exact_arith] cb by blast
  ultimately show ?thesis
    using ra rb ca cb by blast
qed

subsection \<open>C6: scores and projected metrics stay in bounds\<close>

text \<open>
  C6: for every parameter vector in range, the five risk scores and the overall score lie
  between 0 and 100, and the projected NPA ratio and GDP growth are not negative. This
  holds for the values the calculator computes and for the rounded values of the report.
\<close>

theorem risk_scores_in_bounds:
  assumes "in_range p"
  shows "list_all (\<lambda>s. 0 \<le> s \<and> s \<le> 100)
           [physicalRisk p, transitionRisk p, financialRisk p, operationalRisk p,
            regulatoryRisk p, overallStressScore p]
       \<and> list_all (\<lambda>s. 0 \<le> s \<and> s \<le> 100)
           [physical (risk_scores (calculateStressOutcomes p)),
            transition (risk_scores (calculateStressOutcomes p)),
            financial (risk_scores (calculateStressOutcomes p)),
            operational (risk_scores (calculateStressOutcomes p)),
            regulatory (risk_scores (calculateStressOutcomes p)),
            overall (risk_scores (calculateStressOutcomes p))]
       \<and> 0 \<le> projectedNPA p \<and> 0 \<le> projectedGDP p
       \<and> 0 \<le> npa_ratio (projected (calculateStressOutcomes p))
       \<and> 0 \<le> gdp_growth (projected (calculateStressOutcomes p))"
proof -
  note r = risk_bounds [OF assms] overall_bounds [OF assms]
  have raw: "list_all (\<lambda>s. 0 \<le> s \<and> s \<le> 100)
           [physicalRisk p, transitionRisk p, financialRisk p, operationalRisk p,
            regulatoryRisk p, overallStressScore p]"
    using r by simp
  have fixed: "0 \<le> toFixed x d \<and> toFixed x d \<le> 100" if "0 \<le> x" "x \<le> 100" for x d
    using that toFixed_ge_int [of 0 x d] toFixed_le_int [of x 100 d] by simp
  have shown: "list_all (\<lambda>s. 0 \<le> s \<and> s \<le> 100)
           [physical (risk_scores (calculateStressOutcomes p)),
            transition (risk_scores (calculateStressOutcomes p)),
            financial (risk_scores (calculateStressOutcomes p)),
            operational (risk_scores (calculateStressOutcomes p)),
            regulatory (risk_scores (calculateStressOutcomes p)),
            overall (risk_scores (calculateStressOutcomes p))]"
    using r by (simp add: report_risk_scores fixed)
  have npa: "0 \<le> projectedNPA p" and gdp: "0 \<le> projectedGDP p"
    using projectedNPA_bounds [OF assms] projectedGDP_bounds [OF assms] by simp_all
  have "0 \<le> npa_ratio (projected (calculateStressOutcomes p))"
    using npa toFixed_ge_int [of 0 "projectedNPA p" 2] by (simp add: report_projected)
  moreover have "0 \<le> gdp_growth (projected (calculateStressOutcomes p))"
    using gdp toFixed_ge_int [of 0 "projectedGDP p" 2] by (simp add: report_projected)
  ultimately show ?thesis
    using raw shown npa gdp by simp
qed

theorem risk_scores_in_bounds_witness:
  "in_range \<lparr>temperature_rise = 4.0, carbon_price = 5000, green_investment_growth = 0,
             fossil_phase_out = 15, water_stress_level = 100, disaster_frequency = 3.0\<rparr>
   \<and> list_all (\<lambda>s. 0 \<le> s \<and> s \<le> 100)
        [physical (risk_scores (calculateStressOutcomes
           \<lparr>temperature_rise = 4.0, carbon_price = 5000, green_investment_growth = 0,
            fossil_phase_out = 15, water_stress_level = 100, disaster_frequency = 3.0\<rparr>)),
         overall (risk_scores (calculateStressOutcomes
           \<lparr>temperature_rise = 4.0, carbon_price = 5000, green_investment_growth = 0,
            fossil_phase_out = 15, water_stress_level = 100, disaster_frequency = 3.0\<rparr>))]
   \<and> 0 \<le> gdp_growth (projected (calculateStressOutcomes
           \<lparr>temperature_rise = 4.0, carbon_price = 5000, green_investment_growth = 0,
            fossil_phase_out = 15, water_stress_level = 100, disaster_frequency = 3.0\<rparr>))"
proof -
  have h: "in_range \<lparr>temperature_rise = 4.0, carbon_price = 5000, green_investment_growth = 0,
             fossil_phase_out = 15, water_stress_level = 100, disaster_frequency = 3.0\<rparr>"
    by (simp add: range_defs)
  show ?thesis
    using h risk_scores_in_bounds [OF h] by simp
qed

subsection \<open>C7: monotone in the temperature rise\<close>

text \<open>
  C7: for two parameter vectors in range that agree on every field but the temperature
  rise, both temperature rises at least 1.5 and the second one larger, the physical risk
  score and the projected NPA ratio of the second are at least those of the first. This
  holds for the computed values and for the rounded values of the report.
\<close>

theorem temperature_monotone:
  assumes "in_range p" and "in_range q"
    and "q = p\<lparr>temperature_rise := temperature_rise q\<rparr>"
    and "1.5 \<le> temperature_rise p" and "temperature_rise p < temperature_rise q"
  shows "physicalRisk p \<le> physicalRisk q \<and> projectedNPA p \<le> projectedNPA q
       \<and> physical (risk_scores (calculateStressOutcomes p))
           \<le> physical (risk_scores (calculateStressOutcomes q))
       \<and> npa_ratio (projected (calculateStressOutcomes p))
           \<le> npa_ratio (projected (calculateStressOutcomes q))"
proof -
  have "0 \<le> temperature_rise p - 1.5" "temperature_rise p - 1.5 \<le> temperature_rise q - 1.5"
    using assms(4,5) by simp_all
  then have "(temperature_rise p - 1.5)\<^sup>2 \<le> (temperature_rise q - 1.5)\<^sup>2"
    by (intro power_mono) simp_all
  then have t: "temperatureImpact p \<le> temperatureImpact q"
    by (simp add: temperatureImpact_def)
  have same: "waterStressImpact q = waterStressImpact p" "disasterImpact q = disasterImpact p"
    "greenInvestmentBenefit q = greenInvestmentBenefit p"
    by (subst assms(3), simp add: outcome_defs)+
  have phys: "physicalRisk p \<le> physicalRisk q"
    using t by (simp add: physicalRisk_def same)
  have npa: "projectedNPA p \<le> projectedNPA q"
    using t by (simp add: projectedNPA_def same)
  show ?thesis
    using phys npa by (simp add: report_fields toFixed_mono)
qed

theorem temperature_monotone_witness:
  "in_range defaults \<and> in_range (defaults\<lparr>temperature_rise := 2.5\<rparr>)
   \<and> 1.5 \<le> temperature_rise defaults
   \<and> temperature_rise defaults < temperature_rise (defaults\<lparr>temperature_rise := 2.5\<rparr>)
   \<and> physicalRisk defaults \<le> physicalRisk (defaults\<lparr>temperature_rise := 2.5\<rparr>)
   \<and> projectedNPA defaults \<le> projectedNPA (defaults\<lparr>temperature_rise := 2.5\<rparr>)
   \<and> physical (risk_scores (calculateStressOutcomes defaults))
        \<le> physical (risk_scores (calculateStressOutcomes (defaults\<lparr>temperature_rise := 2.5\<rparr>)))
   \<and> npa_ratio (projected (calculateStressOutcomes defaults))
        \<le> npa_ratio (projected (calculateStressOutcomes (defaults\<lparr>temperature_rise := 2.5\<rparr>)))"
proof -
  have h: "in_range defaults" "in_range (defaults\<lparr>temperature_rise := 2.5\<rparr>)"
    "defaults\<lparr>temperature_rise := 2.5\<rparr>
       = defaults\<lparr>temperature_rise := temperature_rise (defaults\<lparr>temperature_rise := 2.5\<rparr>)\<rparr>"
    "1.5 \<le> temperature_rise defaults"
    "temperature_rise defaults < temperature_rise (defaults\<lparr>temperature_rise := 2.5\<rparr>)"
    by (simp_all add: range_defs defaults_def)
  show ?thesis
    using h(1,2,4,5) temperature_monotone [OF h] by simp
qed

subsection \<open>C8: the recommendations\<close>

text \<open>
  C8: for every parameter vector in range, the recommendation list holds the two
  unguarded recommendations, and each guarded one is in the list exactly when its own
  test on the report holds; the one on physical risk exactly when the physical risk
  score of the report is above 50. For two parameter vectors in range whose reports
  differ in that the physical risk score is above 50 for the second and not for the
  first, while the three other tests come out the same, the list of the second is the
  list of the first with the recommendation on physical risk put in front, and taking it
  out again gives the list of the first.
\<close>

theorem recommendation_independence:
  assumes "in_range p" and "in_range q"
  shows "rec_monitoring \<in> set (recommendations (calculateStressOutcomes p))
       \<and> rec_diversified \<in> set (recommendations (calculateStressOutcomes p))
       \<and> (rec_physical \<in> set (recommendations (calculateStressOutcomes p))
            \<longleftrightarrow> physical (risk_scores (calculateStressOutcomes p)) > 50)
       \<and> (rec_transition \<in> set (recommendations (calculateStressOutcomes p))
            \<longleftrightarrow> transition (risk_scores (calculateStressOutcomes p)) > 50)
       \<and> (rec_capital \<in> set (recommendations (calculateStressOutcomes p))
            \<longleftrightarrow> capital_ratio (projected (calculateStressOutcomes p)) < 12)
       \<and> (rec_credit \<in> set (recommendations (calculateStressOutcomes p))
            \<longleftrightarrow> npa_change (changes (calculateStressOutcomes p)) > 1)
       \<and> (\<not> physical (risk_scores (calculateStressOutcomes p)) > 50
            \<and> physical (risk_scores (calculateStressOutcomes q)) > 50
            \<and> (transition (risk_scores (calculateStressOutcomes q)) > 50
                 \<longleftrightarrow> transition (risk_scores (calculateStressOutcomes p)) > 50)
            \<and> (capital_ratio (projected (calculateStressOutcomes q)) < 12
                 \<longleftrightarrow> capital_ratio (projected (calculateStressOutcomes p)) < 12)
            \<and> (npa_change (changes (calculateStressOutcomes q)) > 1
                 \<longleftrightarrow> npa_change (changes (calculateStressOutcomes p)) > 1)
          \<longrightarrow> recommendations (calculateStressOutcomes q)
                = rec_physical # recommendations (calculateStressOutcomes p)
              \<and> removeAll rec_physical (recommendations (calculateStressOutcomes q))
                = recommendations (calculateStressOutcomes p))"
  using rec_distinct by (auto simp add: recommendations_def)

theorem recommendation_independence_witness:
  "in_range (defaults\<lparr>water_stress_level := 40\<rparr>) \<and> in_range defaults
   \<and> physical (risk_scores (calculateStressOutcomes (defaults\<lparr>water_stress_level := 40\<rparr>))) = 50
   \<and> physical (risk_scores (calculateStressOutcomes defaults)) = 50.6
   \<and> recommendations (calculateStressOutcomes (defaults\<lparr>water_stress_level := 40\<rparr>))
       = [rec_monitoring, rec_diversified]
   \<and> recommendations (calculateStressOutcomes defaults)
       = rec_physical # recommendations (calculateStressOutcomes (defaults\<lparr>water_stress_level := 40\<rparr>))"
proof -
  let ?p = "defaults\<lparr>water_stress_level := 40\<rparr>"
  have h: "in_range ?p" "in_range defaults"
    by (simp_all add: range_defs defaults_def)
  have v: "physical (risk_scores (calculateStressOutcomes ?p)) = 50"
    "physical (risk_scores (calculateStressOutcomes defaults)) = 50.6"
    "transition (risk_scores (calculateStressOutcomes ?p)) = 40"
    "transition (risk_scores (calculateStressOutcomes defaults)) = 40"
    "capital_ratio (projected (calculateStressOutcomes ?p)) = 14.7"
    "capital_ratio (projected (calculateStressOutcomes defaults)) = 14.7"
    "\<not> npa_change (changes (calculateStressOutcomes ?p)) > 1"
    "\<not> npa_change (changes (calculateStressOutcomes defaults)) > 1"
    by (simp_all add: report_fields outcome_defs defaults_def STRESS_TEST_PARAMS_def toFixed_def)
  have "recommendations (calculateStressOutcomes ?p) = [rec_monitoring, rec_diversified]"
    using v by (simp add: recommendations_def)
  moreover have "recommendations (calculateStressOutcomes defaults)
       = rec_physical # recommendations (calculateStressOutcomes ?p)"
    using recommendation_independence [OF h] v by simp
  ultimately show ?thesis
    using h v by simp
qed

subsection \<open>C9: the baseline\<close>

text \<open>
  C9: for every parameter vector, in range or not, the baseline of the report is the
  fixed record of constants 2.5, 6.5, 15000, 20, 15.5 and 135; so the baselines of the
  reports of any two parameter vectors are the same.
\<close>

theorem baseline_constant:
  "baseline (calculateStressOutcomes p) =
     \<lparr>npa_ratio = 2.5, gdp_growth = 6.5, expected_loss = 15000, green_finance_share = 20,
      capital_ratio = 15.5, liquidity_coverage = 135\<rparr>
   \<and> baseline (calculateStressOutcomes p) = baseline (calculateStressOutcomes q)"
  by (simp add: calculateStressOutcomes_def baseNPA_def baseGDP_def baseExpectedLoss_def
      baseGreenFinance_def)

subsection \<open>C10: labels are decided before rounding\<close>

text \<open>
  C10: the labels are computed from the values before rounding, so a report can show a
  rounded value on a threshold together with the label of the other side. One parameter
  vector in range has the overall score 70.03, shown as 70.0 in the report, with the
  stress level Severe, while another shows 70.0 with the stress level High. A third has
  the capital ratio 11.496, shown as 11.5, with the capital adequacy Watch.
\<close>

theorem labels_from_unrounded_values:
  "in_range \<lparr>temperature_rise = 3.5, carbon_price = 500, green_investment_growth = 5,
             fossil_phase_out = 1.5, water_stress_level = 81, disaster_frequency = 2.5\<rparr>
   \<and> overallStressScore
        \<lparr>temperature_rise = 3.5, carbon_price = 500, green_investment_growth = 5,
         fossil_phase_out = 1.5, water_stress_level = 81, disaster_frequency = 2.5\<rparr> = 70.03
   \<and> overall (risk_scores (calculateStressOutcomes
        \<lparr>temperature_rise = 3.5, carbon_price = 500, green_investment_growth = 5,
         fossil_phase_out = 1.5, water_stress_level = 81, disaster_frequency = 2.5\<rparr>)) = 70.0
   \<and> stress_level (calculateStressOutcomes
        \<lparr>temperature_rise = 3.5, carbon_price = 500, green_investment_growth = 5,
         fossil_phase_out = 1.5, water_stress_level = 81, disaster_frequency = 2.5\<rparr>)
       = ''Severe''
   \<and> in_range \<lparr>temperature_rise = 3.5, carbon_price = 500, green_investment_growth = 5,
             fossil_phase_out = 1.5, water_stress_level = 80, disaster_frequency = 2.5\<rparr>
   \<and> overall (risk_scores (calculateStressOutcomes
        \<lparr>temperature_rise = 3.5, carbon_price = 500, green_investment_growth = 5,
         fossil_phase_out = 1.5, water_stress_level = 80, disaster_frequency = 2.5\<rparr>)) = 70.0
   \<and> stress_level (calculateStressOutcomes
        \<lparr>temperature_rise = 3.5, carbon_price = 500, green_investment_growth = 5,
         fossil_phase_out = 1.5, water_stress_level = 80, disaster_frequency = 2.5\<rparr>)
       = ''High''
   \<and> in_range \<lparr>temperature_rise = 2.7, carbon_price = 5000, green_investment_growth = 20,
             fossil_phase_out = 12, water_stress_level = 45, disaster_frequency = 1.5\<rparr>
   \<and> 15.5 + capitalImpact
        \<lparr>temperature_rise = 2.7, carbon_price = 5000, green_investment_growth = 20,
         fossil_phase_out = 12, water_stress_level = 45, disaster_frequency = 1.5\<rparr> = 11.496
   \<and> capital_ratio (projected (calculateStressOutcomes
        \<lparr>temperature_rise = 2.7, carbon_price = 5000, green_investment_growth = 20,
         fossil_phase_out = 12, water_stress_level = 45, disaster_frequency = 1.5\<rparr>)) = 11.5
   \<and> capital_adequacy (calculateStressOutcomes
        \<lparr>temperature_rise = 2.7, carbon_price = 5000, green_investment_growth = 20,
         fossil_phase_out = 12, water_stress_level = 45, disaster_frequency = 1.5\<rparr>)
       = ''Watch''"
  by (simp add: range_defs report_fields outcome_defs toFixed_def power2_eq_square)

end
